theory Spec2Isabelle
  imports
    Complex_Main
    "HOL-Library.AList"
    "HOL-Library.Char_ord"
    "HOL-Library.List_Lexorder"
begin

section \<open>ValutaTrade Hub: the rate cache and its update pipeline\<close>

text \<open>
  A shallow embedding of the rate pipeline of \<^verbatim>\<open>valutatrade_hub\<close>:
  \<^item> \<^verbatim>\<open>parser_service/api_clients.py\<close>: the two providers' \<^verbatim>\<open>fetch_rates\<close>;
  \<^item> \<^verbatim>\<open>parser_service/storage.py\<close>: the snapshot and history stores;
  \<^item> \<^verbatim>\<open>parser_service/updater.py\<close>: \<^verbatim>\<open>RatesUpdater\<close>;
  \<^item> \<^verbatim>\<open>core/usecases.py\<close>: \<^verbatim>\<open>_get_conversion_rate\<close> and \<^verbatim>\<open>_check_data_freshness\<close>.

  Modelling decisions, valid for the whole development:
  \<^item> a Python \<^verbatim>\<open>dict\<close> with string keys is an association list in insertion order;
    \<^verbatim>\<open>d.get(k)\<close> is \<open>map_of d k\<close> and \<^verbatim>\<open>d[k] = v\<close> is \<open>AList.update k v d\<close> (an
    existing key keeps its position, a new key goes to the end);
  \<^item> a Python \<^verbatim>\<open>float\<close> is a \<open>real\<close>: rounding, infinities and NaN are not modelled;
  \<^item> a Python \<^verbatim>\<open>str\<close> is a \<open>string\<close> of ASCII characters, compared lexicographically
    by character code as Python compares strings;
  \<^item> JSON documents are typed: a value that is present has the type the program
    expects (a rate is a number, a timestamp is a string), and \<open>None\<close> stands for a
    key that is absent (or \<^verbatim>\<open>null\<close> where the program treats both alike);
  \<^item> an exception is a value of type \<open>exn\<close>, a function that may raise returns
    \<open>exn + 'a\<close>;
  \<^item> writing a file succeeds (\<^verbatim>\<open>atomic_write\<close> replaces the document as a whole);
  \<^item> the logging calls and the \<^verbatim>\<open>log_action\<close> decorator (which logs and re-raises)
    have no effect on the modelled state and are left out.
\<close>

subsection \<open>Data model\<close>

type_synonym 'v dict = "(string \<times> 'v) list"

datatype exn =
    ApiRequestError string
  | ValueError string
  | TypeError string
  | ZeroDivisionError
  | FileNotFoundError
  | JSONDecodeError
  | OtherError string

datatype json_scalar = JStr string | JInt int

text \<open>
  One entry of a provider batch or of the snapshot's \<^verbatim>\<open>pairs\<close>: a dict with the keys
  \<^verbatim>\<open>rate\<close>, \<^verbatim>\<open>updated_at\<close>, \<^verbatim>\<open>source\<close> and (in a provider batch) \<^verbatim>\<open>meta\<close>.
\<close>

record entry =
  rate :: "real option"
  updated_at :: "string option"
  source :: "string option"
  meta_bag :: "json_scalar dict option"

text \<open>
  The snapshot document \<^verbatim>\<open>{"pairs": {...}, "last_refresh": ...}\<close>. \<open>pairs = None\<close> is a
  document with no \<^verbatim>\<open>pairs\<close> key (the empty object that \<^verbatim>\<open>ensure_data_dir\<close> writes is
  one); \<open>last_refresh = None\<close> is a key that is absent or null.
\<close>

record snapshot =
  pairs :: "entry dict option"
  last_refresh :: "string option"

text \<open>A JSON file on disk: absent, not parseable as JSON, or holding a document.\<close>

datatype 'a json_file = Missing | Unparseable | Parsed 'a

subsection \<open>Conversion resolver (\<^verbatim>\<open>core/utils.py\<close>, \<^verbatim>\<open>core/usecases.py\<close>)\<close>

text \<open>
  \<^verbatim>\<open>load_json\<close> on the rates file: a missing file and a document that does not parse
  both give the empty object.
\<close>

definition load_json :: "snapshot json_file \<Rightarrow> snapshot" where
  "load_json f =
     (case f of
        Missing \<Rightarrow> \<lparr>pairs = None, last_refresh = None\<rparr>
      | Unparseable \<Rightarrow> \<lparr>pairs = None, last_refresh = None\<rparr>
      | Parsed d \<Rightarrow> d)"

text \<open>The f-string \<^verbatim>\<open>f"{a}_{b}"\<close>.\<close>

definition pair_key_of :: "string \<Rightarrow> string \<Rightarrow> string" where
  "pair_key_of a b = a @ ''_'' @ b"

text \<open>
  The lookup both the direct and the inverse step make:
  \<^verbatim>\<open>if key in exchange_pairs: rate = exchange_pairs[key].get("rate"); if rate and rate > 0\<close>.
  The result is the rate when the step succeeds.
\<close>

definition positive_rate_at :: "entry dict \<Rightarrow> string \<Rightarrow> real option" where
  "positive_rate_at exchange_pairs key =
     (case map_of exchange_pairs key of
        None \<Rightarrow> None
      | Some rate_data \<Rightarrow>
          (case rate rate_data of
             None \<Rightarrow> None
           | Some r \<Rightarrow> if r \<noteq> 0 \<and> r > 0 then Some r else None))"

text \<open>
  \<^verbatim>\<open>_get_conversion_rate\<close>. The rates file is read on every call; \<open>None\<close> is Python's
  \<^verbatim>\<open>None\<close> (no rate). The division \<^verbatim>\<open>1.0 / float(reverse_rate)\<close> is reached only
  with \<open>reverse_rate > 0\<close>.
\<close>

function get_conversion_rate :: "snapshot json_file \<Rightarrow> string \<Rightarrow> string \<Rightarrow> real option" where
  "get_conversion_rate rates_file from_currency to_currency =
     (if from_currency = to_currency then Some 1
      else
        let rates = load_json rates_file;
            exchange_pairs = (case pairs rates of None \<Rightarrow> [] | Some p \<Rightarrow> p)
        in
        case positive_rate_at exchange_pairs (pair_key_of from_currency to_currency) of
          Some r \<Rightarrow> Some r
        | None \<Rightarrow>
           (case positive_rate_at exchange_pairs (pair_key_of to_currency from_currency) of
              Some reverse_rate \<Rightarrow> Some (1 / reverse_rate)
            | None \<Rightarrow>
                if from_currency \<noteq> ''USD'' \<and> to_currency \<noteq> ''USD'' then
                  (let usd_to_from = get_conversion_rate rates_file from_currency ''USD'';
                       usd_to_to = get_conversion_rate rates_file ''USD'' to_currency
                   in case (usd_to_from, usd_to_to) of
                        (Some a, Some b) \<Rightarrow>
                          if a \<noteq> 0 \<and> a > 0 \<and> b \<noteq> 0 \<and> b > 0 then Some (a * b) else None
                      | _ \<Rightarrow> None)
                else None))"
  by pat_completeness auto
termination
  by (relation "measure (\<lambda>(f, a, b). if a \<noteq> ''USD'' \<and> b \<noteq> ''USD'' then 1 else 0)") auto

declare get_conversion_rate.simps [simp del]

text \<open>The pairs a lookup sees.\<close>

definition exchange_pairs_of :: "snapshot json_file \<Rightarrow> entry dict" where
  "exchange_pairs_of rates_file =
     (case pairs (load_json rates_file) of None \<Rightarrow> [] | Some p \<Rightarrow> p)"

subsection \<open>Freshness checker (\<^verbatim>\<open>_check_data_freshness\<close>)\<close>






subsection \<open>Stores (\<^verbatim>\<open>parser_service/storage.py\<close>)\<close>

record history_record =
  h_id :: string
  h_from_currency :: string
  h_to_currency :: string
  h_rate :: "real option"
  h_timestamp :: string
  h_source :: "string option"
  h_meta :: "json_scalar dict"

text \<open>
  The state a run reads and writes: the two files, and the number of clock readings
  taken so far. The clock is a parameter: \<open>strftime_z clk n\<close> is the \<open>n\<close>-th reading
  printed by \<^verbatim>\<open>strftime("%Y-%m-%dT%H:%M:%SZ")\<close>, \<open>isoformat_z clk n\<close> the same reading
  printed by \<^verbatim>\<open>isoformat().replace("+00:00", "Z")\<close>.
\<close>

record world =
  snapshot_file :: "snapshot json_file"
  history_file :: "history_record list json_file"
  ticks :: nat

record clock =
  strftime_z :: "nat \<Rightarrow> string"
  isoformat_z :: "nat \<Rightarrow> string"

text \<open>\<^verbatim>\<open>open\<close> and \<^verbatim>\<open>json.load\<close> on a file.\<close>

definition json_load :: "'a json_file \<Rightarrow> exn + 'a" where
  "json_load f =
     (case f of
        Missing \<Rightarrow> Inl FileNotFoundError
      | Unparseable \<Rightarrow> Inl JSONDecodeError
      | Parsed d \<Rightarrow> Inr d)"

text \<open>\<^verbatim>\<open>RatesSnapshotStorage.read_snapshot\<close>: \<^verbatim>\<open>except Exception\<close> catches every exception.\<close>

definition read_snapshot :: "world \<Rightarrow> snapshot" where
  "read_snapshot w =
     (case json_load (snapshot_file w) of
        Inr d \<Rightarrow> d
      | Inl e \<Rightarrow> \<lparr>pairs = Some [], last_refresh = None\<rparr>)"

text \<open>\<^verbatim>\<open>RatesSnapshotStorage.write_snapshot\<close>: one clock reading, then the atomic write.\<close>

definition write_snapshot :: "clock \<Rightarrow> entry dict \<Rightarrow> world \<Rightarrow> world" where
  "write_snapshot clk prs w =
     (let now_iso = strftime_z clk (ticks w);
          payload = \<lparr>pairs = Some prs, last_refresh = Some now_iso\<rparr>
      in w\<lparr>snapshot_file := Parsed payload, ticks := Suc (ticks w)\<rparr>)"

text \<open>\<^verbatim>\<open>ExchangeHistoryStorage.append_record\<close>.\<close>

definition append_record :: "history_record \<Rightarrow> world \<Rightarrow> world" where
  "append_record record w =
     (let data = (case json_load (history_file w) of Inr d \<Rightarrow> d | Inl e \<Rightarrow> [])
      in w\<lparr>history_file := Parsed (data @ [record])\<rparr>)"

subsection \<open>Rate merger (\<^verbatim>\<open>parser_service/updater.py\<close>)\<close>

text \<open>
  A client is its class, which the selection by source tests with \<^verbatim>\<open>isinstance\<close>,
  and the outcome of its \<^verbatim>\<open>fetch_rates()\<close> in this run: the batch or the exception.
\<close>

datatype client_kind = CoinGecko | ExchangeRate | OtherClient

record client =
  kind :: client_kind
  fetch_rates :: "exn + entry dict"

record refresh_result =
  r_total :: nat
  r_fetched :: nat
  r_errors :: "string list"
  r_last_refresh :: string

text \<open>\<^verbatim>\<open>str.strip()\<close> and \<^verbatim>\<open>str.lower()\<close> on ASCII strings.\<close>

definition is_space :: "char \<Rightarrow> bool" where
  "is_space c = (let n = (of_char c :: nat) in (9 \<le> n \<and> n \<le> 13) \<or> (28 \<le> n \<and> n \<le> 32))"

definition py_strip :: "string \<Rightarrow> string" where
  "py_strip s = rev (dropWhile is_space (rev (dropWhile is_space s)))"

definition py_lower :: "string \<Rightarrow> string" where
  "py_lower s =
     map (\<lambda>c. let n = (of_char c :: nat) in if 65 \<le> n \<and> n \<le> 90 then char_of (n + 32) else c) s"

definition get_exchangerate_aliases :: "string list" where
  "get_exchangerate_aliases =
     [''exchangerate'', ''exchange_rate'', ''exchange-rate'', ''exchangerate-api'']"

text \<open>\<^verbatim>\<open>_select_clients_by_source\<close>: \<^verbatim>\<open>not source\<close> holds for \<^verbatim>\<open>None\<close> and for \<^verbatim>\<open>""\<close>.\<close>

definition select_clients_by_source :: "client list \<Rightarrow> string option \<Rightarrow> client list" where
  "select_clients_by_source clients src =
     (case src of
        None \<Rightarrow> clients
      | Some s \<Rightarrow>
          if s = [] then clients
          else
            (let source_lower = py_lower (py_strip s)
             in filter
                  (\<lambda>c. (kind c = CoinGecko \<and> source_lower = ''coingecko'') \<or>
                       (kind c = ExchangeRate \<and> source_lower \<in> set get_exchangerate_aliases))
                  clients))"

text \<open>\<^verbatim>\<open>pair_key.split("_", 1)\<close>: the parts around the first underscore, if there is one.\<close>

fun split_once :: "string \<Rightarrow> (string \<times> string) option" where
  "split_once [] = None"
| "split_once (c # cs) =
     (if c = CHR ''_'' then Some ([], cs)
      else map_option (\<lambda>(a, b). (c # a, b)) (split_once cs))"

text \<open>
  \<^verbatim>\<open>_get_timestamp\<close>: the default argument of \<^verbatim>\<open>meta.get\<close> is evaluated first, so the
  clock is read on every call.
\<close>

definition get_timestamp :: "clock \<Rightarrow> entry \<Rightarrow> world \<Rightarrow> string \<times> world" where
  "get_timestamp clk meta w =
     (let now = strftime_z clk (ticks w)
      in (case updated_at meta of Some t \<Rightarrow> t | None \<Rightarrow> now, w\<lparr>ticks := Suc (ticks w)\<rparr>))"

text \<open>\<^verbatim>\<open>_update_combined_pairs\<close>: the test is \<^verbatim>\<open>existing.get("updated_at", "") < new_updated_at\<close>.\<close>

definition update_combined_pairs :: "entry dict \<Rightarrow> string \<Rightarrow> entry \<Rightarrow> entry dict" where
  "update_combined_pairs combined_pairs pair_key meta =
     (let existing = map_of combined_pairs pair_key;
          new_updated_at = (case updated_at meta of None \<Rightarrow> [] | Some t \<Rightarrow> t)
      in if (case existing of
               None \<Rightarrow> True
             | Some e \<Rightarrow> (case updated_at e of None \<Rightarrow> [] | Some t \<Rightarrow> t) < new_updated_at)
         then AList.update pair_key
                \<lparr>rate = rate meta, updated_at = Some new_updated_at,
                 source = source meta, meta_bag = None\<rparr>
                combined_pairs
         else combined_pairs)"

text \<open>
  \<^verbatim>\<open>_process_client_data\<close>: the loop over \<^verbatim>\<open>pairs.items()\<close>. Unpacking the split of a
  key with no underscore raises \<^verbatim>\<open>ValueError\<close>; what was appended to the history
  before stays appended.
\<close>

fun process_client_data ::
  "clock \<Rightarrow> entry dict \<Rightarrow> entry dict \<Rightarrow> world \<Rightarrow> (exn + entry dict) \<times> world"
where
  "process_client_data clk [] combined_pairs w = (Inr combined_pairs, w)"
| "process_client_data clk ((pair_key, meta) # rest) combined_pairs w =
     (case split_once pair_key of
        None \<Rightarrow> (Inl (ValueError ''not enough values to unpack (expected 2, got 1)''), w)
      | Some (from_code, to_code) \<Rightarrow>
          (let (timestamp, w1) = get_timestamp clk meta w;
               record =
                 \<lparr>h_id = from_code @ ''_'' @ to_code @ ''_'' @ timestamp,
                  h_from_currency = from_code,
                  h_to_currency = to_code,
                  h_rate = rate meta,
                  h_timestamp = timestamp,
                  h_source = source meta,
                  h_meta = (case meta_bag meta of None \<Rightarrow> [] | Some m \<Rightarrow> m)\<rparr>;
               w2 = append_record record w1
           in process_client_data clk rest
                (update_combined_pairs combined_pairs pair_key meta) w2))"

text \<open>
  The loop over the selected clients in \<^verbatim>\<open>run_update\<close>. Only \<^verbatim>\<open>ApiRequestError\<close> is
  caught (its message goes to \<open>errors\<close>); any other exception leaves the run. The
  loop state is \<open>(combined_pairs, errors, total_fetched)\<close>. The \<^verbatim>\<open>try\<close> block also
  covers \<^verbatim>\<open>_process_client_data\<close>, which raises nothing but \<^verbatim>\<open>ValueError\<close>
  (\<open>process_client_data_error\<close> below), so the handler is only ever entered from
  \<^verbatim>\<open>fetch_rates\<close>.
\<close>

fun run_clients ::
  "clock \<Rightarrow> client list \<Rightarrow> entry dict \<times> string list \<times> nat \<Rightarrow> world \<Rightarrow>
     (exn + entry dict \<times> string list \<times> nat) \<times> world"
where
  "run_clients clk [] st w = (Inr st, w)"
| "run_clients clk (c # cs) (combined_pairs, errors, total_fetched) w =
     (case fetch_rates c of
        Inl (ApiRequestError e) \<Rightarrow>
          run_clients clk cs (combined_pairs, errors @ [e], total_fetched) w
      | Inl e \<Rightarrow> (Inl e, w)
      | Inr prs \<Rightarrow>
          (let fetched_count = length prs;
               total_fetched2 = total_fetched + fetched_count
           in case process_client_data clk prs combined_pairs w of
                (Inl (ApiRequestError e), w1) \<Rightarrow>
                  run_clients clk cs (combined_pairs, errors @ [e], total_fetched2) w1
              | (Inl e, w1) \<Rightarrow> (Inl e, w1)
              | (Inr combined_pairs2, w1) \<Rightarrow>
                  run_clients clk cs (combined_pairs2, errors, total_fetched2) w1))"

text \<open>\<^verbatim>\<open>_build_result\<close>: one clock reading.\<close>

definition build_result ::
  "clock \<Rightarrow> entry dict \<Rightarrow> nat \<Rightarrow> string list \<Rightarrow> world \<Rightarrow> refresh_result \<times> world"
where
  "build_result clk combined_pairs total_fetched errors w =
     (\<lparr>r_total = length combined_pairs,
       r_fetched = total_fetched,
       r_errors = errors,
       r_last_refresh = isoformat_z clk (ticks w)\<rparr>,
      w\<lparr>ticks := Suc (ticks w)\<rparr>)"

text \<open>
  \<^verbatim>\<open>run_update\<close>, in two parts: the pairs the run starts from (lines 53 to 57), and
  the rest of the function run from a given starting map.
\<close>

definition existing_pairs :: "world \<Rightarrow> entry dict" where
  "existing_pairs w =
     (let existing_snapshot = read_snapshot w
      in case pairs existing_snapshot of None \<Rightarrow> [] | Some p \<Rightarrow> p)"

definition run_update_from ::
  "clock \<Rightarrow> client list \<Rightarrow> string option \<Rightarrow> entry dict \<Rightarrow> world \<Rightarrow>
     (exn + refresh_result) \<times> world"
where
  "run_update_from clk clients src start w =
     (let target_clients = select_clients_by_source clients src
      in case run_clients clk target_clients (start, [], 0) w of
           (Inl e, w1) \<Rightarrow> (Inl e, w1)
         | (Inr (combined_pairs, errors, total_fetched), w1) \<Rightarrow>
             (let w2 = (if combined_pairs \<noteq> [] then write_snapshot clk combined_pairs w1
                        else w1);
                  (result, w3) = build_result clk combined_pairs total_fetched errors w2
              in (Inr result, w3)))"

definition run_update ::
  "clock \<Rightarrow> client list \<Rightarrow> string option \<Rightarrow> world \<Rightarrow> (exn + refresh_result) \<times> world"
where
  "run_update clk clients src w = run_update_from clk clients src (existing_pairs w) w"

subsection \<open>Quote providers (\<^verbatim>\<open>parser_service/config.py\<close>, \<^verbatim>\<open>parser_service/api_clients.py\<close>)\<close>

record parser_config =
  BASE_FIAT_CURRENCY :: string
  FIAT_CURRENCIES :: "string list"
  CRYPTO_ID_MAP :: "string dict"

text \<open>The values \<^verbatim>\<open>ParserConfig.__init__\<close> sets.\<close>

definition ParserConfig :: parser_config where
  "ParserConfig =
     \<lparr>BASE_FIAT_CURRENCY = ''USD'',
      FIAT_CURRENCIES = [''EUR'', ''GBP'', ''RUB''],
      CRYPTO_ID_MAP = [(''BTC'', ''bitcoin''), (''ETH'', ''ethereum''), (''SOL'', ''solana'')]\<rparr>"

text \<open>
  What the request gave: an exception inside the \<^verbatim>\<open>try\<close> block, which the client
  raises again as \<^verbatim>\<open>ApiRequestError\<close> (the string is the message of that error), or
  a response with its status code and its decoded body.
\<close>

datatype 'd http_outcome = RequestFailed string | Response int 'd

text \<open>Python's float division, which raises on a zero divisor.\<close>

definition py_div :: "real \<Rightarrow> real \<Rightarrow> exn + real" where
  "py_div a b = (if b = 0 then Inl ZeroDivisionError else Inr (a / b))"

text \<open>\<^verbatim>\<open>1.0 / rate if rate != 0 else 0.0\<close>, the expression both clients use.\<close>

definition inverse_rate :: "real \<Rightarrow> exn + real" where
  "inverse_rate r = (if r \<noteq> 0 then py_div 1 r else Inr 0)"

text \<open>
  The loop of \<^verbatim>\<open>CoinGeckoClient.fetch_rates\<close> over \<^verbatim>\<open>CRYPTO_ID_MAP.items()\<close>. The body
  is \<^verbatim>\<open>{id: {currency: price}}\<close>; a price that is absent or null is skipped.
\<close>

fun coingecko_collect ::
  "string \<Rightarrow> string \<Rightarrow> int \<Rightarrow> real dict dict \<Rightarrow> (string \<times> string) list \<Rightarrow> entry dict \<Rightarrow>
     exn + entry dict"
where
  "coingecko_collect base_currency ts status data [] result = Inr result"
| "coingecko_collect base_currency ts status data ((code, raw_id) # rest) result =
     (let raw = (case map_of data raw_id of None \<Rightarrow> [] | Some d \<Rightarrow> d)
      in case map_of raw (py_lower base_currency) of
           None \<Rightarrow> coingecko_collect base_currency ts status data rest result
         | Some r \<Rightarrow>
             (let key = code @ ''_'' @ base_currency;
                  bag = Some [(''raw_id'', JStr raw_id), (''status_code'', JInt status)];
                  result1 =
                    AList.update key
                      \<lparr>rate = Some r, updated_at = Some ts,
                       source = Some ''CoinGecko'', meta_bag = bag\<rparr>
                      result;
                  inv_key = base_currency @ ''_'' @ code
              in case inverse_rate r of
                   Inl e \<Rightarrow> Inl e
                 | Inr inv_rate \<Rightarrow>
                     coingecko_collect base_currency ts status data rest
                       (AList.update inv_key
                          \<lparr>rate = Some inv_rate, updated_at = Some ts,
                           source = Some ''CoinGecko'', meta_bag = bag\<rparr>
                          result1)))"

text \<open>\<^verbatim>\<open>CoinGeckoClient.fetch_rates\<close>; \<open>ts\<close> is the clock reading the client takes.\<close>

definition coingecko_fetch_rates ::
  "parser_config \<Rightarrow> string \<Rightarrow> real dict dict http_outcome \<Rightarrow> exn + entry dict"
where
  "coingecko_fetch_rates cfg ts http =
     (case http of
        RequestFailed reason \<Rightarrow> Inl (ApiRequestError reason)
      | Response status data \<Rightarrow>
          coingecko_collect (BASE_FIAT_CURRENCY cfg) ts status data (CRYPTO_ID_MAP cfg) [])"

text \<open>The body of the fiat source: \<^verbatim>\<open>{"rates": {...}}\<close> or \<^verbatim>\<open>{"conversion_rates": {...}}\<close>.\<close>

record exchangerate_body =
  rates :: "real dict option"
  conversion_rates :: "real dict option"

text \<open>\<^verbatim>\<open>data.get("rates") or data.get("conversion_rates")\<close>: an empty dict is falsy.\<close>

definition rates_of_body :: "exchangerate_body \<Rightarrow> real dict option" where
  "rates_of_body data =
     (case rates data of
        None \<Rightarrow> conversion_rates data
      | Some d \<Rightarrow> if d \<noteq> [] then Some d else conversion_rates data)"

text \<open>
  The loop of \<^verbatim>\<open>ExchangeRateApiClient.fetch_rates\<close> over \<^verbatim>\<open>FIAT_CURRENCIES\<close>: the base
  itself and a code with no rate (\<^verbatim>\<open>float(None)\<close> raises \<^verbatim>\<open>TypeError\<close>, which is
  caught) are skipped.
\<close>

fun exchangerate_collect ::
  "string \<Rightarrow> string \<Rightarrow> int \<Rightarrow> real dict \<Rightarrow> string list \<Rightarrow> entry dict \<Rightarrow> exn + entry dict"
where
  "exchangerate_collect base ts status rts [] result = Inr result"
| "exchangerate_collect base ts status rts (code # rest) result =
     (if code = base then exchangerate_collect base ts status rts rest result
      else case map_of rts code of
             None \<Rightarrow> exchangerate_collect base ts status rts rest result
           | Some rate_from_base \<Rightarrow>
               (let key = base @ ''_'' @ code;
                    bag = Some [(''status_code'', JInt status)];
                    result1 =
                      AList.update key
                        \<lparr>rate = Some rate_from_base, updated_at = Some ts,
                         source = Some ''ExchangeRate-API'', meta_bag = bag\<rparr>
                        result;
                    inv_key = code @ ''_'' @ base
                in case inverse_rate rate_from_base of
                     Inl e \<Rightarrow> Inl e
                   | Inr inv_rate \<Rightarrow>
                       exchangerate_collect base ts status rts rest
                         (AList.update inv_key
                            \<lparr>rate = Some inv_rate, updated_at = Some ts,
                             source = Some ''ExchangeRate-API'', meta_bag = bag\<rparr>
                            result1)))"

text \<open>
  \<^verbatim>\<open>ExchangeRateApiClient.fetch_rates\<close>. The message of the error for a body with no
  rates is a fixed text of the program, written here in ASCII.
\<close>

definition exchangerate_fetch_rates ::
  "parser_config \<Rightarrow> string \<Rightarrow> exchangerate_body http_outcome \<Rightarrow> exn + entry dict"
where
  "exchangerate_fetch_rates cfg ts http =
     (case http of
        RequestFailed reason \<Rightarrow> Inl (ApiRequestError reason)
      | Response status data \<Rightarrow>
          (case rates_of_body data of
             None \<Rightarrow> Inl (ApiRequestError ''ExchangeRate API response has no rates'')
           | Some rts \<Rightarrow>
               if rts = [] then Inl (ApiRequestError ''ExchangeRate API response has no rates'')
               else exchangerate_collect (BASE_FIAT_CURRENCY cfg) ts status rts
                      (FIAT_CURRENCIES cfg) []))"

subsection \<open>Notions used in the statements\<close>

text \<open>
  The entry a merge stores for an incoming quote, the time stamp the merge compares
  (\<^verbatim>\<open>.get("updated_at", "")\<close>), and the merge of one batch into a pair map: the
  assignments \<^verbatim>\<open>_process_client_data\<close> makes, without the history.
\<close>

definition incoming :: "entry \<Rightarrow> entry" where
  "incoming meta =
     \<lparr>rate = rate meta,
      updated_at = Some (case updated_at meta of None \<Rightarrow> [] | Some t \<Rightarrow> t),
      source = source meta, meta_bag = None\<rparr>"

definition stamp :: "entry \<Rightarrow> string" where
  "stamp e = (case updated_at e of None \<Rightarrow> [] | Some t \<Rightarrow> t)"

definition merge_batch :: "entry dict \<Rightarrow> entry dict \<Rightarrow> entry dict" where
  "merge_batch prs combined_pairs =
     fold (\<lambda>(pair_key, meta) c. update_combined_pairs c pair_key meta) prs combined_pairs"

text \<open>The rate a fetch outcome holds under a key, if it is a batch with that key.\<close>

definition reported_rate :: "exn + entry dict \<Rightarrow> string \<Rightarrow> real option" where
  "reported_rate outcome key =
     (case outcome of
        Inl e \<Rightarrow> None
      | Inr batch \<Rightarrow> (case map_of batch key of None \<Rightarrow> None | Some e \<Rightarrow> rate e))"

text \<open>The price the crypto source's body holds for an asset id, in the base currency.\<close>

definition coingecko_price :: "real dict dict \<Rightarrow> string \<Rightarrow> string \<Rightarrow> real option" where
  "coingecko_price data raw_id base_currency =
     map_of (case map_of data raw_id of None \<Rightarrow> [] | Some d \<Rightarrow> d) (py_lower base_currency)"

subsection \<open>Example data\<close>

definition demo_entry :: "real \<Rightarrow> string \<Rightarrow> entry" where
  "demo_entry r t = \<lparr>rate = Some r, updated_at = Some t, source = Some ''X'', meta_bag = None\<rparr>"

definition demo_clock :: clock where
  "demo_clock =
     \<lparr>strftime_z = (\<lambda>n. ''2024-01-02T00:00:00Z''),
      isoformat_z = (\<lambda>n. ''2024-01-02T00:00:00.000000Z'')\<rparr>"

definition demo_world :: world where
  "demo_world =
     \<lparr>snapshot_file =
        Parsed \<lparr>pairs = Some [(''BTC_USD'', demo_entry 50000 ''2024-01-01T00:00:00Z'')],
                last_refresh = Some ''2024-01-01T00:00:00Z''\<rparr>,
      history_file = Parsed [],
      ticks = 0\<rparr>"


definition failing_client :: client where
  "failing_client = \<lparr>kind = CoinGecko, fetch_rates = Inl (ApiRequestError ''timeout'')\<rparr>"


section \<open>Properties\<close>

subsection \<open>Conversion resolver\<close>

lemma get_conversion_rate_rel_usd:
  "get_conversion_rate_rel y x \<Longrightarrow> fst (snd y) = ''USD'' \<or> snd (snd y) = ''USD''"
  by (erule get_conversion_rate_rel.cases) auto

lemma get_conversion_rate_rel_not_usd:
  "get_conversion_rate_rel y x \<Longrightarrow> fst (snd x) \<noteq> ''USD'' \<and> snd (snd x) \<noteq> ''USD''"
  by (erule get_conversion_rate_rel.cases) auto

lemma get_conversion_rate_rel_measure:
  "get_conversion_rate_rel y x \<Longrightarrow>
     (y, x) \<in> measure (\<lambda>(f, a, b). if a \<noteq> ''USD'' \<and> b \<noteq> ''USD'' then 1 else (0::nat))"
  by (erule get_conversion_rate_rel.cases) auto

lemma get_conversion_rate_total: "get_conversion_rate_dom x"
proof -
  have "wf {(y, x). get_conversion_rate_rel y x}"
    by (rule wf_subset [OF wf_measure]) (auto dest: get_conversion_rate_rel_measure)
  then have "wfp get_conversion_rate_rel"
    by (simp add: wfp_def)
  then show ?thesis
    by (rule accp_wfpD)
qed

lemma positive_rate_at_Some:
  "map_of ps k = Some e \<Longrightarrow> rate e = Some r \<Longrightarrow> 0 < r \<Longrightarrow> positive_rate_at ps k = Some r"
  by (simp add: positive_rate_at_def)

lemma positive_rate_at_absent:
  "map_of ps k = None \<Longrightarrow> positive_rate_at ps k = None"
  by (simp add: positive_rate_at_def)

lemma get_conversion_rate_unfold:
  "get_conversion_rate rates_file from_currency to_currency =
     (if from_currency = to_currency then Some 1
      else
        case positive_rate_at (exchange_pairs_of rates_file)
               (pair_key_of from_currency to_currency) of
          Some r \<Rightarrow> Some r
        | None \<Rightarrow>
           (case positive_rate_at (exchange_pairs_of rates_file)
                   (pair_key_of to_currency from_currency) of
              Some reverse_rate \<Rightarrow> Some (1 / reverse_rate)
            | None \<Rightarrow>
                if from_currency \<noteq> ''USD'' \<and> to_currency \<noteq> ''USD'' then
                  (case (get_conversion_rate rates_file from_currency ''USD'',
                         get_conversion_rate rates_file ''USD'' to_currency) of
                        (Some a, Some b) \<Rightarrow>
                          if a \<noteq> 0 \<and> a > 0 \<and> b \<noteq> 0 \<and> b > 0 then Some (a * b) else None
                      | _ \<Rightarrow> None)
                else None))"
  unfolding exchange_pairs_of_def
  by (subst get_conversion_rate.simps) (simp only: Let_def)

lemma get_conversion_rate_usd:
  assumes "from_currency = ''USD'' \<or> to_currency = ''USD''"
  shows "get_conversion_rate rates_file from_currency to_currency =
     (if from_currency = to_currency then Some 1
      else
        case positive_rate_at (exchange_pairs_of rates_file)
               (pair_key_of from_currency to_currency) of
          Some r \<Rightarrow> Some r
        | None \<Rightarrow>
           (case positive_rate_at (exchange_pairs_of rates_file)
                   (pair_key_of to_currency from_currency) of
              Some reverse_rate \<Rightarrow> Some (1 / reverse_rate)
            | None \<Rightarrow> None))"
  using assms by (subst get_conversion_rate_unfold) (auto split: option.splits)

lemma get_conversion_rate_usd_right [simp]:
  "get_conversion_rate rates_file a ''USD'' =
     (if a = ''USD'' then Some 1
      else
        case positive_rate_at (exchange_pairs_of rates_file) (pair_key_of a ''USD'') of
          Some r \<Rightarrow> Some r
        | None \<Rightarrow>
           (case positive_rate_at (exchange_pairs_of rates_file) (pair_key_of ''USD'' a) of
              Some reverse_rate \<Rightarrow> Some (1 / reverse_rate)
            | None \<Rightarrow> None))"
  by (rule get_conversion_rate_usd) simp

lemma get_conversion_rate_usd_left [simp]:
  "get_conversion_rate rates_file ''USD'' b =
     (if ''USD'' = b then Some 1
      else
        case positive_rate_at (exchange_pairs_of rates_file) (pair_key_of ''USD'' b) of
          Some r \<Rightarrow> Some r
        | None \<Rightarrow>
           (case positive_rate_at (exchange_pairs_of rates_file) (pair_key_of b ''USD'') of
              Some reverse_rate \<Rightarrow> Some (1 / reverse_rate)
            | None \<Rightarrow> None))"
  by (rule get_conversion_rate_usd) simp

lemma get_conversion_rate_same [simp]: "get_conversion_rate rates_file a a = Some 1"
  by (subst get_conversion_rate_unfold) simp

text \<open>
  Claim C3. If the snapshot holds the key \<open>FROM_TO\<close> with a rate \<open>r > 0\<close> and does not
  hold the key \<open>TO_FROM\<close>, then the lookup of \<open>(TO, FROM)\<close> fails at the direct step,
  succeeds at the inverse step and returns \<open>1 / r\<close>.
\<close>

theorem inverse_lookup_rate:
  assumes "map_of (exchange_pairs_of rates_file) (pair_key_of from_code to_code) = Some e"
    and "rate e = Some r"
    and "0 < r"
    and "map_of (exchange_pairs_of rates_file) (pair_key_of to_code from_code) = None"
  shows "positive_rate_at (exchange_pairs_of rates_file) (pair_key_of to_code from_code) = None
       \<and> positive_rate_at (exchange_pairs_of rates_file) (pair_key_of from_code to_code) = Some r
       \<and> get_conversion_rate rates_file to_code from_code = Some (1 / r)"
proof -
  from assms(1,4) have ne: "to_code \<noteq> from_code" by auto
  have d: "positive_rate_at (exchange_pairs_of rates_file) (pair_key_of to_code from_code) = None"
    using assms(4) by (rule positive_rate_at_absent)
  have i: "positive_rate_at (exchange_pairs_of rates_file) (pair_key_of from_code to_code) = Some r"
    using assms(1-3) by (rule positive_rate_at_Some)
  show ?thesis
    using ne d i by (subst get_conversion_rate_unfold) simp
qed

theorem inverse_lookup_rate_witness:
  "get_conversion_rate
     (Parsed \<lparr>pairs = Some [(''BTC_USD'', demo_entry 50000 ''2024-01-01T00:00:00Z'')],
              last_refresh = Some ''2024-01-01T00:00:00Z''\<rparr>)
     ''USD'' ''BTC'' = Some (1 / 50000)"
  using inverse_lookup_rate
    [of "Parsed \<lparr>pairs = Some [(''BTC_USD'', demo_entry 50000 ''2024-01-01T00:00:00Z'')],
                  last_refresh = Some ''2024-01-01T00:00:00Z''\<rparr>"
        "''BTC''" "''USD''" "demo_entry 50000 ''2024-01-01T00:00:00Z''" 50000]
  by (simp add: exchange_pairs_of_def load_json_def pair_key_of_def demo_entry_def
        positive_rate_at_def)




text \<open>
  Claim C9. The lookup terminates on every input (every argument is in the domain of
  the recursion), and a call made by the bridged step makes no recursive call itself:
  \<open>get_conversion_rate_rel y x\<close> says that the call on \<open>x\<close> calls \<open>y\<close>, and no chain of
  two such calls exists. The two calls the bridged step makes, to USD and from USD,
  are answered by the equality test, the direct step and the inverse step alone.
\<close>

theorem conversion_terminates_one_hop:
  "get_conversion_rate_dom (rates_file, from_currency, to_currency)
   \<and> \<not> (get_conversion_rate_rel y (rates_file, from_currency, to_currency)
        \<and> get_conversion_rate_rel z y)
   \<and> get_conversion_rate rates_file from_currency ''USD'' =
       (if from_currency = ''USD'' then Some 1
        else case positive_rate_at (exchange_pairs_of rates_file)
                    (pair_key_of from_currency ''USD'') of
               Some r \<Rightarrow> Some r
             | None \<Rightarrow>
                 map_option (\<lambda>r. 1 / r)
                   (positive_rate_at (exchange_pairs_of rates_file)
                      (pair_key_of ''USD'' from_currency)))
   \<and> get_conversion_rate rates_file ''USD'' to_currency =
       (if ''USD'' = to_currency then Some 1
        else case positive_rate_at (exchange_pairs_of rates_file)
                    (pair_key_of ''USD'' to_currency) of
               Some r \<Rightarrow> Some r
             | None \<Rightarrow>
                 map_option (\<lambda>r. 1 / r)
                   (positive_rate_at (exchange_pairs_of rates_file)
                      (pair_key_of to_currency ''USD'')))"
proof -
  have dom: "get_conversion_rate_dom (rates_file, from_currency, to_currency)"
    by (rule get_conversion_rate_total)
  have hop: "\<not> (get_conversion_rate_rel y (rates_file, from_currency, to_currency)
        \<and> get_conversion_rate_rel z y)"
    using get_conversion_rate_rel_usd [of y "(rates_file, from_currency, to_currency)"]
      get_conversion_rate_rel_not_usd [of z y]
    by auto
  show ?thesis
    using dom hop by (simp split: option.splits)
qed

theorem conversion_terminates_one_hop_witness:
  "get_conversion_rate_rel (Parsed \<lparr>pairs = Some [], last_refresh = None\<rparr>, ''EUR'', ''USD'')
     (Parsed \<lparr>pairs = Some [], last_refresh = None\<rparr>, ''EUR'', ''JPY'')
   \<and> (\<forall>z. \<not> get_conversion_rate_rel z (Parsed \<lparr>pairs = Some [], last_refresh = None\<rparr>, ''EUR'', ''USD''))
   \<and> get_conversion_rate_dom (Parsed \<lparr>pairs = Some [], last_refresh = None\<rparr>, ''EUR'', ''JPY'')"
proof -
  have r: "get_conversion_rate_rel (Parsed \<lparr>pairs = Some [], last_refresh = None\<rparr>, ''EUR'', ''USD'')
     (Parsed \<lparr>pairs = Some [], last_refresh = None\<rparr>, ''EUR'', ''JPY'')"
    by (rule get_conversion_rate_rel.intros(1) [OF _ refl refl])
       (simp_all add: positive_rate_at_def load_json_def)
  show ?thesis
    using r conversion_terminates_one_hop
      [of "Parsed \<lparr>pairs = Some [], last_refresh = None\<rparr>" "''EUR''" "''JPY''"
          "(Parsed \<lparr>pairs = Some [], last_refresh = None\<rparr>, ''EUR'', ''USD'')"]
    by blast
qed


subsection \<open>Rate merger\<close>

lemma map_of_update_combined_pairs:
  "map_of (update_combined_pairs cp k m) k' =
     (if k' = k then
        (case map_of cp k of
           None \<Rightarrow> Some (incoming m)
         | Some e \<Rightarrow> if stamp e < stamp m then Some (incoming m) else Some e)
      else map_of cp k')"
  by (auto simp: update_combined_pairs_def incoming_def stamp_def update_conv' Let_def
           split: option.splits)


lemma update_combined_pairs_keeps:
  "k' \<in> dom (map_of cp) \<Longrightarrow> k' \<in> dom (map_of (update_combined_pairs cp k m))"
  by (auto simp: map_of_update_combined_pairs dom_def split: option.splits)

lemma merge_batch_Nil [simp]: "merge_batch [] c = c"
  by (simp add: merge_batch_def)

lemma merge_batch_Cons [simp]:
  "merge_batch ((k, m) # b) c = merge_batch b (update_combined_pairs c k m)"
  by (simp add: merge_batch_def)

lemma merge_batch_keeps:
  "k \<in> dom (map_of c) \<Longrightarrow> k \<in> dom (map_of (merge_batch b c))"
proof (induction b arbitrary: c)
  case Nil
  then show ?case by simp
next
  case (Cons x b)
  obtain k' m where x: "x = (k', m)" by (cases x)
  from Cons.prems have "k \<in> dom (map_of (update_combined_pairs c k' m))"
    by (rule update_combined_pairs_keeps)
  then show ?case
    unfolding x merge_batch_Cons by (rule Cons.IH)
qed

lemma merge_batch_other:
  "k \<notin> fst ` set b \<Longrightarrow> map_of (merge_batch b c) k = map_of c k"
  by (induction b arbitrary: c) (auto simp: map_of_update_combined_pairs)



lemma process_client_data_snapshot_file [simp]:
  "snapshot_file (snd (process_client_data clk b c w)) = snapshot_file w"
  by (induction clk b c w rule: process_client_data.induct)
     (auto simp: get_timestamp_def append_record_def Let_def split: option.splits prod.splits)

lemma process_client_data_Inr:
  "process_client_data clk b c w = (Inr c', w') \<Longrightarrow> c' = merge_batch b c"
  by (induction clk b c w rule: process_client_data.induct)
     (auto simp: Let_def split: option.splits prod.splits)

lemma process_client_data_error:
  "process_client_data clk b c w = (Inl e, w') \<Longrightarrow> \<exists>msg. e = ValueError msg"
  by (induction clk b c w rule: process_client_data.induct)
     (auto simp: Let_def split: option.splits prod.splits)



lemma process_client_data_frame:
  "process_client_data clk b c w = (r, w') \<Longrightarrow> snapshot_file w' = snapshot_file w"
  using process_client_data_snapshot_file [of clk b c w] by simp

lemma existing_pairs_cong:
  "snapshot_file w' = snapshot_file w \<Longrightarrow> existing_pairs w' = existing_pairs w"
  by (simp add: existing_pairs_def read_snapshot_def)

lemma run_clients_Cons_fail:
  "fetch_rates c = Inl (ApiRequestError e) \<Longrightarrow>
     run_clients clk (c # cs) (c0, errs, n) w = run_clients clk cs (c0, errs @ [e], n) w"
  by simp

lemma run_clients_Cons_ok:
  "fetch_rates c = Inr b \<Longrightarrow> process_client_data clk b c0 w = (Inr c1, w1) \<Longrightarrow>
     run_clients clk (c # cs) (c0, errs, n) w = run_clients clk cs (c1, errs, n + length b) w1"
  by (simp add: Let_def)

lemma run_clients_Cons_Inr:
  assumes "run_clients clk (c # cs) (c0, errs, n) w = (Inr st, w')"
  shows "(\<exists>e. fetch_rates c = Inl (ApiRequestError e)
            \<and> run_clients clk cs (c0, errs @ [e], n) w = (Inr st, w'))
       \<or> (\<exists>b w1. fetch_rates c = Inr b
            \<and> process_client_data clk b c0 w = (Inr (merge_batch b c0), w1)
            \<and> run_clients clk cs (merge_batch b c0, errs, n + length b) w1 = (Inr st, w'))"
proof (cases "fetch_rates c")
  case (Inl e)
  with assms show ?thesis by (cases e) auto
next
  case (Inr b)
  obtain r w1 where p: "process_client_data clk b c0 w = (r, w1)"
    by (cases "process_client_data clk b c0 w")
  show ?thesis
  proof (cases r)
    case (Inl e)
    from p Inl obtain msg where "e = ValueError msg"
      using process_client_data_error by blast
    with assms Inr p Inl show ?thesis by (simp add: Let_def)
  next
    case r: (Inr c1)
    with p have "c1 = merge_batch b c0" using process_client_data_Inr by blast
    with assms Inr p r show ?thesis by (simp add: Let_def)
  qed
qed

lemma run_clients_snapshot_file:
  "snapshot_file (snd (run_clients clk cs st w)) = snapshot_file w"
proof (induction cs arbitrary: st w)
  case Nil
  then show ?case by simp
next
  case (Cons c cs)
  obtain c0 errs n where st: "st = (c0, errs, n)" by (cases st) auto
  show ?case
  proof (cases "fetch_rates c")
    case (Inl e)
    then show ?thesis using Cons.IH by (cases e) (simp_all add: st)
  next
    case (Inr b)
    obtain r w1 where p: "process_client_data clk b c0 w = (r, w1)"
      by (cases "process_client_data clk b c0 w")
    then have f: "snapshot_file w1 = snapshot_file w" by (rule process_client_data_frame)
    show ?thesis
    proof (cases r)
      case (Inl e)
      with Inr p f show ?thesis using Cons.IH by (cases e) (simp_all add: st Let_def)
    next
      case r: (Inr c1)
      with Inr p f show ?thesis using Cons.IH by (simp add: st Let_def)
    qed
  qed
qed

lemma run_clients_all_fail:
  "\<forall>c \<in> set cs. \<exists>e. fetch_rates c = Inl (ApiRequestError e) \<Longrightarrow>
     \<exists>errs'. run_clients clk cs (c0, errs, n) w = (Inr (c0, errs', n), w)
            \<and> length errs' = length errs + length cs"
proof (induction cs arbitrary: errs)
  case Nil
  then show ?case by simp
next
  case (Cons c cs)
  then obtain e where e: "fetch_rates c = Inl (ApiRequestError e)" by auto
  from Cons.prems have "\<forall>c \<in> set cs. \<exists>e. fetch_rates c = Inl (ApiRequestError e)" by simp
  from Cons.IH [OF this, of "errs @ [e]"] obtain errs'
    where r: "run_clients clk cs (c0, errs @ [e], n) w = (Inr (c0, errs', n), w)"
      and l: "length errs' = length (errs @ [e]) + length cs"
    by blast
  have "run_clients clk (c # cs) (c0, errs, n) w = (Inr (c0, errs', n), w)"
    unfolding run_clients_Cons_fail [OF e] by (rule r)
  moreover from l have "length errs' = length errs + length (c # cs)" by simp
  ultimately show ?case by blast
qed

lemma run_clients_keeps:
  "run_clients clk cs (c0, errs, n) w = (Inr (c1, errs1, n1), w1) \<Longrightarrow>
     k \<in> dom (map_of c0) \<Longrightarrow> k \<in> dom (map_of c1)"
proof (induction cs arbitrary: c0 errs n w)
  case Nil
  then show ?case by simp
next
  case (Cons c cs)
  from run_clients_Cons_Inr [OF Cons.prems(1)] show ?case
  proof (elim disjE exE conjE)
    fix e assume "run_clients clk cs (c0, errs @ [e], n) w = (Inr (c1, errs1, n1), w1)"
    then show ?thesis using Cons.prems(2) by (rule Cons.IH)
  next
    fix b w2
    assume "run_clients clk cs (merge_batch b c0, errs, n + length b) w2 = (Inr (c1, errs1, n1), w1)"
    then show ?thesis
      using merge_batch_keeps [OF Cons.prems(2)] by (rule Cons.IH)
  qed
qed

lemma run_clients_other:
  "run_clients clk cs (c0, errs, n) w = (Inr (c1, errs1, n1), w1) \<Longrightarrow>
     \<forall>c \<in> set cs. \<forall>b. fetch_rates c = Inr b \<longrightarrow> k \<notin> fst ` set b \<Longrightarrow>
     map_of c1 k = map_of c0 k"
proof (induction cs arbitrary: c0 errs n w)
  case Nil
  then show ?case by simp
next
  case (Cons c cs)
  from Cons.prems(2) have rest: "\<forall>c \<in> set cs. \<forall>b. fetch_rates c = Inr b \<longrightarrow> k \<notin> fst ` set b"
    by simp
  from run_clients_Cons_Inr [OF Cons.prems(1)] show ?case
  proof (elim disjE exE conjE)
    fix e assume "run_clients clk cs (c0, errs @ [e], n) w = (Inr (c1, errs1, n1), w1)"
    then show ?thesis using rest by (rule Cons.IH)
  next
    fix b w2
    assume b: "fetch_rates c = Inr b"
      and r: "run_clients clk cs (merge_batch b c0, errs, n + length b) w2 = (Inr (c1, errs1, n1), w1)"
    from b Cons.prems(2) have "k \<notin> fst ` set b" by simp
    then have "map_of (merge_batch b c0) k = map_of c0 k" by (rule merge_batch_other)
    with Cons.IH [OF r rest] show ?thesis by simp
  qed
qed


lemma run_update_from_Inr:
  assumes "run_clients clk (select_clients_by_source clients src) (start, [], 0) w
             = (Inr (c1, errs, n), w1)"
  shows "fst (run_update_from clk clients src start w) =
           Inr \<lparr>r_total = length c1, r_fetched = n, r_errors = errs,
                r_last_refresh =
                  isoformat_z clk (ticks (if c1 \<noteq> [] then write_snapshot clk c1 w1 else w1))\<rparr>"
    and "snapshot_file (snd (run_update_from clk clients src start w)) =
           (if c1 \<noteq> [] then
              Parsed \<lparr>pairs = Some c1, last_refresh = Some (strftime_z clk (ticks w1))\<rparr>
            else snapshot_file w1)"
    and "history_file (snd (run_update_from clk clients src start w)) = history_file w1"
  using assms
  by (simp_all add: run_update_from_def build_result_def write_snapshot_def Let_def)

lemma run_update_from_Inl:
  assumes "run_clients clk (select_clients_by_source clients src) (start, [], 0) w = (Inl e, w1)"
  shows "run_update_from clk clients src start w = (Inl e, w1)"
  using assms by (simp add: run_update_from_def)

lemma existing_pairs_Parsed:
  "snapshot_file w = Parsed \<lparr>pairs = Some c, last_refresh = t\<rparr> \<Longrightarrow> existing_pairs w = c"
  by (simp add: existing_pairs_def read_snapshot_def json_load_def)

text \<open>
  Claim C1, as amended. For an incoming quote with \<open>updated_at = T2\<close>: when the pair
  key has no entry, the entry after the merge is the quote's rate, time stamp and
  source; when it has an entry \<open>e\<close> with time stamp \<open>T1\<close> (\<open>stamp e\<close>, the empty
  string when \<open>e\<close> has none), the entry after the merge is the quote's if \<open>T1 < T2\<close>
  and is \<open>e\<close>, unchanged, if \<open>T2 \<le> T1\<close>. The comparison is the lexicographic order
  on strings.
\<close>

theorem merge_recency_strict:
  assumes "updated_at meta = Some T2"
  shows "(map_of combined_pairs pair_key = None \<longrightarrow>
            map_of (update_combined_pairs combined_pairs pair_key meta) pair_key =
              Some \<lparr>rate = rate meta, updated_at = Some T2, source = source meta,
                    meta_bag = None\<rparr>)
       \<and> (map_of combined_pairs pair_key = Some e \<and> stamp e < T2 \<longrightarrow>
            map_of (update_combined_pairs combined_pairs pair_key meta) pair_key =
              Some \<lparr>rate = rate meta, updated_at = Some T2, source = source meta,
                    meta_bag = None\<rparr>)
       \<and> (map_of combined_pairs pair_key = Some e \<and> T2 \<le> stamp e \<longrightarrow>
            map_of (update_combined_pairs combined_pairs pair_key meta) pair_key = Some e)"
  using assms by (auto simp: map_of_update_combined_pairs incoming_def stamp_def)

theorem merge_recency_strict_witness:
  "map_of (update_combined_pairs [] ''BTC_USD'' (demo_entry 52000 ''2024-01-02T00:00:00Z''))
     ''BTC_USD'' = Some (demo_entry 52000 ''2024-01-02T00:00:00Z'')
   \<and> map_of (update_combined_pairs [(''BTC_USD'', demo_entry 50000 ''2024-01-01T00:00:00Z'')]
        ''BTC_USD'' (demo_entry 52000 ''2024-01-02T00:00:00Z''))
     ''BTC_USD'' = Some (demo_entry 52000 ''2024-01-02T00:00:00Z'')
   \<and> map_of (update_combined_pairs [(''BTC_USD'', demo_entry 50000 ''2024-01-02T00:00:00Z'')]
        ''BTC_USD'' (demo_entry 52000 ''2024-01-01T00:00:00Z''))
     ''BTC_USD'' = Some (demo_entry 50000 ''2024-01-02T00:00:00Z'')"
  using
    merge_recency_strict [of "demo_entry 52000 ''2024-01-02T00:00:00Z''" "''2024-01-02T00:00:00Z''"
      "[]" "''BTC_USD''"]
    merge_recency_strict [of "demo_entry 52000 ''2024-01-02T00:00:00Z''" "''2024-01-02T00:00:00Z''"
      "[(''BTC_USD'', demo_entry 50000 ''2024-01-01T00:00:00Z'')]" "''BTC_USD''"
      "demo_entry 50000 ''2024-01-01T00:00:00Z''"]
    merge_recency_strict [of "demo_entry 52000 ''2024-01-01T00:00:00Z''" "''2024-01-01T00:00:00Z''"
      "[(''BTC_USD'', demo_entry 50000 ''2024-01-02T00:00:00Z'')]" "''BTC_USD''"
      "demo_entry 50000 ''2024-01-02T00:00:00Z''"]
  by (simp add: demo_entry_def stamp_def)

text \<open>
  Claim C1 as stated lets the incoming quote win when \<open>T2 \<ge> T1\<close>. With equal time
  stamps the test \<^verbatim>\<open>existing.get("updated_at", "") < new_updated_at\<close> is false: the
  existing entry (rate 50000) survives and the quote (rate 52000) is dropped.
\<close>

theorem merge_recency_equal_stamps_counterexample:
  "(''2024-01-01T00:00:00Z'' :: string) \<ge> ''2024-01-01T00:00:00Z''
   \<and> map_of (update_combined_pairs [(''BTC_USD'', demo_entry 50000 ''2024-01-01T00:00:00Z'')]
        ''BTC_USD'' (demo_entry 52000 ''2024-01-01T00:00:00Z''))
     ''BTC_USD'' = Some (demo_entry 50000 ''2024-01-01T00:00:00Z'')
   \<and> demo_entry 50000 ''2024-01-01T00:00:00Z''
       \<noteq> \<lparr>rate = rate (demo_entry 52000 ''2024-01-01T00:00:00Z''),
           updated_at = updated_at (demo_entry 52000 ''2024-01-01T00:00:00Z''),
           source = source (demo_entry 52000 ''2024-01-01T00:00:00Z''),
           meta_bag = None\<rparr>"
  by (simp add: update_combined_pairs_def demo_entry_def)

text \<open>
  Claim C5. A pair key that the snapshot holds before a run is held by the snapshot
  after the run, whatever the run does (also when it ends with an exception); and
  when no batch fetched in the run has the key, its entry is the same as before.
\<close>

theorem merge_never_loses_pairs:
  assumes "map_of (existing_pairs w) k = Some e"
  shows "k \<in> dom (map_of (existing_pairs (snd (run_update clk clients src w))))
       \<and> ((\<forall>c \<in> set (select_clients_by_source clients src).
              \<forall>b. fetch_rates c = Inr b \<longrightarrow> k \<notin> fst ` set b) \<longrightarrow>
            map_of (existing_pairs (snd (run_update clk clients src w))) k = Some e)"
proof -
  let ?cs = "select_clients_by_source clients src"
  obtain r w1 where rc: "run_clients clk ?cs (existing_pairs w, [], 0) w = (r, w1)"
    by (cases "run_clients clk ?cs (existing_pairs w, [], 0) w")
  have f1: "snapshot_file w1 = snapshot_file w"
    using run_clients_snapshot_file [of clk ?cs "(existing_pairs w, [], 0)" w] rc by simp
  from assms have k: "k \<in> dom (map_of (existing_pairs w))" by auto
  show ?thesis
  proof (cases r)
    case (Inl x)
    with rc have "run_update clk clients src w = (Inl x, w1)"
      by (simp add: run_update_def run_update_from_Inl)
    then have "existing_pairs (snd (run_update clk clients src w)) = existing_pairs w"
      using existing_pairs_cong [OF f1] by simp
    with assms k show ?thesis by simp
  next
    case (Inr st)
    obtain c1 errs n where st: "st = (c1, errs, n)" by (cases st) auto
    from rc Inr st have rc': "run_clients clk ?cs (existing_pairs w, [], 0) w
        = (Inr (c1, errs, n), w1)" by simp
    from run_clients_keeps [OF rc' k] have k1: "k \<in> dom (map_of c1)" .
    then have ne: "c1 \<noteq> []" by auto
    have "snapshot_file (snd (run_update clk clients src w)) =
            Parsed \<lparr>pairs = Some c1, last_refresh = Some (strftime_z clk (ticks w1))\<rparr>"
      using run_update_from_Inr(2) [OF rc'] ne by (simp add: run_update_def)
    then have ep: "existing_pairs (snd (run_update clk clients src w)) = c1"
      by (rule existing_pairs_Parsed)
    show ?thesis
      using k1 run_clients_other [OF rc', of k] assms by (simp add: ep)
  qed
qed

theorem merge_never_loses_pairs_witness:
  "map_of (existing_pairs demo_world) ''BTC_USD'' = Some (demo_entry 50000 ''2024-01-01T00:00:00Z'')
   \<and> map_of (existing_pairs (snd (run_update demo_clock
          [\<lparr>kind = CoinGecko,
            fetch_rates = Inr [(''ETH_USD'', demo_entry 3000 ''2024-01-02T00:00:00Z'')]\<rparr>]
          None demo_world))) ''BTC_USD''
       = Some (demo_entry 50000 ''2024-01-01T00:00:00Z'')"
proof -
  have e: "map_of (existing_pairs demo_world) ''BTC_USD''
             = Some (demo_entry 50000 ''2024-01-01T00:00:00Z'')"
    by (simp add: existing_pairs_def read_snapshot_def json_load_def demo_world_def)
  show ?thesis
    using e merge_never_loses_pairs [OF e, of demo_clock
          "[\<lparr>kind = CoinGecko,
            fetch_rates = Inr [(''ETH_USD'', demo_entry 3000 ''2024-01-02T00:00:00Z'')]\<rparr>]"
          None]
    by (simp add: select_clients_by_source_def)
qed


text \<open>
  Claim C2, as amended. When every selected client fails with \<^verbatim>\<open>ApiRequestError\<close>
  (also when no client is selected), the run returns a result with nothing fetched
  and one error per selected client, the pairs of the snapshot and the history are as
  before, and the snapshot file is left untouched when the prior pairs are empty;
  when they are not, the file is written again with the same pairs and with
  \<open>last_refresh\<close> set to the clock reading of the write.
\<close>

theorem failed_refresh_keeps_pairs:
  assumes "\<forall>c \<in> set (select_clients_by_source clients src).
             \<exists>e. fetch_rates c = Inl (ApiRequestError e)"
  shows "(\<exists>r. fst (run_update clk clients src w) = Inr r
            \<and> r_fetched r = 0
            \<and> r_total r = length (existing_pairs w)
            \<and> length (r_errors r) = length (select_clients_by_source clients src))
       \<and> existing_pairs (snd (run_update clk clients src w)) = existing_pairs w
       \<and> history_file (snd (run_update clk clients src w)) = history_file w
       \<and> snapshot_file (snd (run_update clk clients src w)) =
           (if existing_pairs w \<noteq> [] then
              Parsed \<lparr>pairs = Some (existing_pairs w),
                      last_refresh = Some (strftime_z clk (ticks w))\<rparr>
            else snapshot_file w)"
proof -
  let ?cs = "select_clients_by_source clients src"
  from run_clients_all_fail [OF assms, of clk "existing_pairs w" "[]" 0 w]
  obtain errs where rc: "run_clients clk ?cs (existing_pairs w, [], 0) w
      = (Inr (existing_pairs w, errs, 0), w)"
    and l: "length errs = length ?cs"
    by auto
  note r = run_update_from_Inr [OF rc]
  have sf: "snapshot_file (snd (run_update clk clients src w)) =
           (if existing_pairs w \<noteq> [] then
              Parsed \<lparr>pairs = Some (existing_pairs w),
                      last_refresh = Some (strftime_z clk (ticks w))\<rparr>
            else snapshot_file w)"
    using r(2) by (simp add: run_update_def)
  have ep: "existing_pairs (snd (run_update clk clients src w)) = existing_pairs w"
  proof (cases "existing_pairs w = []")
    case True
    with sf have "snapshot_file (snd (run_update clk clients src w)) = snapshot_file w" by simp
    then show ?thesis by (rule existing_pairs_cong)
  next
    case False
    with sf show ?thesis by (simp add: existing_pairs_Parsed)
  qed
  show ?thesis
    using r(1) r(3) l sf ep by (simp add: run_update_def)
qed

theorem failed_refresh_keeps_pairs_witness:
  "existing_pairs (snd (run_update demo_clock [failing_client] None demo_world))
     = [(''BTC_USD'', demo_entry 50000 ''2024-01-01T00:00:00Z'')]
   \<and> snapshot_file (snd (run_update demo_clock [failing_client] None demo_world)) =
       Parsed \<lparr>pairs = Some [(''BTC_USD'', demo_entry 50000 ''2024-01-01T00:00:00Z'')],
               last_refresh = Some ''2024-01-02T00:00:00Z''\<rparr>"
  using failed_refresh_keeps_pairs [of "[failing_client]" None demo_clock demo_world]
  by (simp add: select_clients_by_source_def failing_client_def existing_pairs_def
        read_snapshot_def json_load_def demo_world_def demo_clock_def)

text \<open>
  Claim C2 as stated says that the file, \<open>last_refresh\<close> included, is untouched. A run
  whose only client fails, over a snapshot with one pair refreshed on 2024-01-01,
  writes the file with \<open>last_refresh\<close> 2024-01-02: \<^verbatim>\<open>if combined_pairs:\<close> tests the
  combined map, which starts as a copy of the prior pairs.
\<close>

theorem failed_refresh_rewrites_file_counterexample:
  "select_clients_by_source [failing_client] None = [failing_client]
   \<and> fetch_rates failing_client = Inl (ApiRequestError ''timeout'')
   \<and> snapshot_file (snd (run_update demo_clock [failing_client] None demo_world))
       \<noteq> snapshot_file demo_world
   \<and> last_refresh (read_snapshot demo_world) = Some ''2024-01-01T00:00:00Z''
   \<and> last_refresh (read_snapshot (snd (run_update demo_clock [failing_client] None demo_world)))
       = Some ''2024-01-02T00:00:00Z''"
  by (simp add: select_clients_by_source_def failing_client_def run_update_def
        run_update_from_def existing_pairs_def read_snapshot_def json_load_def
        build_result_def write_snapshot_def demo_world_def demo_clock_def Let_def)





subsection \<open>Quote providers\<close>

lemma inverse_rate_total: "inverse_rate r = Inr (if r \<noteq> 0 then 1 / r else 0)"
  by (simp add: inverse_rate_def py_div_def)

lemma split_once_key: "CHR ''_'' \<notin> set a \<Longrightarrow> split_once (a @ ''_'' @ b) = Some (a, b)"
  by (induction a) auto

lemma key_inj:
  assumes "CHR ''_'' \<notin> set a" and "CHR ''_'' \<notin> set c" and "a @ ''_'' @ b = c @ ''_'' @ d"
  shows "a = c \<and> b = d"
proof -
  have "split_once (a @ ''_'' @ b) = Some (a, b)" using assms(1) by (rule split_once_key)
  then have "split_once (c @ ''_'' @ d) = Some (a, b)" by (simp only: assms(3))
  moreover have "split_once (c @ ''_'' @ d) = Some (c, d)" using assms(2) by (rule split_once_key)
  ultimately have "Some (a, b) = Some (c, d)" by (rule trans [OF sym])
  then show ?thesis by simp
qed

lemma reported_rate_Inr_update:
  "reported_rate (Inr (AList.update k' e res)) k =
     (if k = k' then rate e else reported_rate (Inr res) k)"
  by (simp add: reported_rate_def update_conv')

lemma coingecko_collect_Cons:
  "coingecko_collect base ts st data ((code, raw_id) # rest) res =
     (case coingecko_price data raw_id base of
        None \<Rightarrow> coingecko_collect base ts st data rest res
      | Some r \<Rightarrow>
          coingecko_collect base ts st data rest
            (AList.update (base @ ''_'' @ code)
               \<lparr>rate = Some (if r \<noteq> 0 then 1 / r else 0), updated_at = Some ts,
                source = Some ''CoinGecko'',
                meta_bag = Some [(''raw_id'', JStr raw_id), (''status_code'', JInt st)]\<rparr>
               (AList.update (code @ ''_'' @ base)
                  \<lparr>rate = Some r, updated_at = Some ts, source = Some ''CoinGecko'',
                   meta_bag = Some [(''raw_id'', JStr raw_id), (''status_code'', JInt st)]\<rparr>
                  res)))"
  by (simp add: coingecko_price_def inverse_rate_total Let_def split: option.splits)

lemma coingecko_collect_total:
  "\<exists>b. coingecko_collect base ts st data items res = Inr b"
proof (induction items arbitrary: res)
  case Nil
  show ?case by simp
next
  case (Cons x items)
  obtain code raw_id where x: "x = (code, raw_id)" by (cases x)
  show ?case
    unfolding x coingecko_collect_Cons
    by (cases "coingecko_price data raw_id base") (simp_all add: Cons.IH)
qed

lemma coingecko_collect_frame:
  "k \<notin> (\<lambda>c. c @ ''_'' @ base) ` fst ` set items \<Longrightarrow>
   k \<notin> (\<lambda>c. base @ ''_'' @ c) ` fst ` set items \<Longrightarrow>
     reported_rate (coingecko_collect base ts st data items res) k = reported_rate (Inr res) k"
proof (induction items arbitrary: res)
  case Nil
  show ?case by simp
next
  case (Cons x items)
  obtain code raw_id where x: "x = (code, raw_id)" by (cases x)
  from Cons.prems have k1: "k \<noteq> code @ ''_'' @ base" and k2: "k \<noteq> base @ ''_'' @ code"
    and r1: "k \<notin> (\<lambda>c. c @ ''_'' @ base) ` fst ` set items"
    and r2: "k \<notin> (\<lambda>c. base @ ''_'' @ c) ` fst ` set items"
    by (auto simp: x)
  show ?case
    unfolding x coingecko_collect_Cons
    using k1 k2
    by (cases "coingecko_price data raw_id base")
       (simp_all add: Cons.IH [OF r1 r2] reported_rate_Inr_update)
qed

lemma coingecko_collect_reported:
  assumes "CHR ''_'' \<notin> set base"
    and "\<forall>c \<in> fst ` set items. CHR ''_'' \<notin> set c"
    and "distinct (map fst items)"
    and "base \<notin> fst ` set items"
    and "(code, raw_id) \<in> set items"
    and "coingecko_price data raw_id base = Some r"
  shows "reported_rate (coingecko_collect base ts st data items res) (code @ ''_'' @ base) = Some r
       \<and> reported_rate (coingecko_collect base ts st data items res) (base @ ''_'' @ code)
           = Some (if r \<noteq> 0 then 1 / r else 0)"
  using assms(2-5)
proof (induction items arbitrary: res)
  case Nil
  then show ?case by simp
next
  case (Cons x items)
  obtain c' id' where x: "x = (c', id')" by (cases x)
  from Cons.prems have nu: "\<forall>c \<in> fst ` set items. CHR ''_'' \<notin> set c"
    and d: "distinct (map fst items)" and nb: "base \<notin> fst ` set items"
    and c'nu: "CHR ''_'' \<notin> set c'" and c'nb: "c' \<noteq> base" and c'ni: "c' \<notin> fst ` set items"
    by (auto simp: x)
  show ?case
  proof (cases "(code, raw_id) \<in> set items")
    case True
    from Cons.IH [OF nu d nb True] show ?thesis
      unfolding x coingecko_collect_Cons
      by (cases "coingecko_price data id' base") simp_all
  next
    case False
    with Cons.prems(4) have eq: "c' = code" "id' = raw_id" by (auto simp: x)
    from c'nu eq have cnu: "CHR ''_'' \<notin> set code" by simp
    from c'nb eq have cnb: "code \<noteq> base" by simp
    from c'ni eq have cni: "code \<notin> fst ` set items" by simp
    have f1: "code @ ''_'' @ base \<notin> (\<lambda>c. c @ ''_'' @ base) ` fst ` set items"
      using cni by auto
    have f2: "code @ ''_'' @ base \<notin> (\<lambda>c. base @ ''_'' @ c) ` fst ` set items"
    proof
      assume "code @ ''_'' @ base \<in> (\<lambda>c. base @ ''_'' @ c) ` fst ` set items"
      then obtain c where e: "code @ ''_'' @ base = base @ ''_'' @ c" by auto
      have "code = base \<and> base = c" by (rule key_inj [OF cnu assms(1) e])
      with cnb show False by blast
    qed
    have f3: "base @ ''_'' @ code \<notin> (\<lambda>c. c @ ''_'' @ base) ` fst ` set items"
    proof
      assume "base @ ''_'' @ code \<in> (\<lambda>c. c @ ''_'' @ base) ` fst ` set items"
      then obtain c where c: "c \<in> fst ` set items" and e: "base @ ''_'' @ code = c @ ''_'' @ base"
        by auto
      from c nu have "CHR ''_'' \<notin> set c" by blast
      then have "base = c \<and> code = base" by (rule key_inj [OF assms(1) _ e])
      with cnb show False by blast
    qed
    have f4: "base @ ''_'' @ code \<notin> (\<lambda>c. base @ ''_'' @ c) ` fst ` set items"
      using cni by auto
    have ne: "code @ ''_'' @ base \<noteq> base @ ''_'' @ code"
    proof
      assume e: "code @ ''_'' @ base = base @ ''_'' @ code"
      have "code = base \<and> base = code" by (rule key_inj [OF cnu assms(1) e])
      with cnb show False by blast
    qed
    let ?bag = "Some [(''raw_id'', JStr raw_id), (''status_code'', JInt st)]"
    let ?R = "AList.update (base @ ''_'' @ code)
               \<lparr>rate = Some (if r \<noteq> 0 then 1 / r else 0), updated_at = Some ts,
                source = Some ''CoinGecko'', meta_bag = ?bag\<rparr>
               (AList.update (code @ ''_'' @ base)
                  \<lparr>rate = Some r, updated_at = Some ts, source = Some ''CoinGecko'',
                   meta_bag = ?bag\<rparr>
                  res)"
    have step: "coingecko_collect base ts st data ((code, raw_id) # items) res
                  = coingecko_collect base ts st data items ?R"
      unfolding coingecko_collect_Cons assms(6) by simp
    have g1: "reported_rate (coingecko_collect base ts st data items ?R) (code @ ''_'' @ base)
                = reported_rate (Inr ?R) (code @ ''_'' @ base)"
      by (rule coingecko_collect_frame [OF f1 f2])
    have g2: "reported_rate (coingecko_collect base ts st data items ?R) (base @ ''_'' @ code)
                = reported_rate (Inr ?R) (base @ ''_'' @ code)"
      by (rule coingecko_collect_frame [OF f3 f4])
    have v1: "reported_rate (Inr ?R) (code @ ''_'' @ base) = Some r"
      using ne by (simp add: reported_rate_Inr_update)
    have v2: "reported_rate (Inr ?R) (base @ ''_'' @ code) = Some (if r \<noteq> 0 then 1 / r else 0)"
      by (simp add: reported_rate_Inr_update)
    show ?thesis
      unfolding x eq step g1 g2 v1 v2 by simp
  qed
qed

lemma exchangerate_collect_Cons:
  "exchangerate_collect base ts st rts (code # rest) res =
     (if code = base then exchangerate_collect base ts st rts rest res
      else case map_of rts code of
             None \<Rightarrow> exchangerate_collect base ts st rts rest res
           | Some r \<Rightarrow>
               exchangerate_collect base ts st rts rest
                 (AList.update (code @ ''_'' @ base)
                    \<lparr>rate = Some (if r \<noteq> 0 then 1 / r else 0), updated_at = Some ts,
                     source = Some ''ExchangeRate-API'',
                     meta_bag = Some [(''status_code'', JInt st)]\<rparr>
                    (AList.update (base @ ''_'' @ code)
                       \<lparr>rate = Some r, updated_at = Some ts,
                        source = Some ''ExchangeRate-API'',
                        meta_bag = Some [(''status_code'', JInt st)]\<rparr>
                       res)))"
  by (simp add: inverse_rate_total Let_def split: option.splits)

lemma exchangerate_collect_total:
  "\<exists>b. exchangerate_collect base ts st rts items res = Inr b"
proof (induction items arbitrary: res)
  case Nil
  show ?case by simp
next
  case (Cons code items)
  show ?case
    unfolding exchangerate_collect_Cons
    by (cases "map_of rts code") (simp_all add: Cons.IH)
qed

lemma exchangerate_collect_frame:
  "k \<notin> (\<lambda>c. c @ ''_'' @ base) ` set items \<Longrightarrow>
   k \<notin> (\<lambda>c. base @ ''_'' @ c) ` set items \<Longrightarrow>
     reported_rate (exchangerate_collect base ts st rts items res) k = reported_rate (Inr res) k"
proof (induction items arbitrary: res)
  case Nil
  show ?case by simp
next
  case (Cons code items)
  from Cons.prems have k1: "k \<noteq> code @ ''_'' @ base" and k2: "k \<noteq> base @ ''_'' @ code"
    and r1: "k \<notin> (\<lambda>c. c @ ''_'' @ base) ` set items"
    and r2: "k \<notin> (\<lambda>c. base @ ''_'' @ c) ` set items"
    by auto
  show ?case
    unfolding exchangerate_collect_Cons
    using k1 k2
    by (cases "map_of rts code")
       (simp_all add: Cons.IH [OF r1 r2] reported_rate_Inr_update)
qed

lemma exchangerate_collect_reported:
  assumes "CHR ''_'' \<notin> set base"
    and "\<forall>c \<in> set items. CHR ''_'' \<notin> set c"
    and "code \<in> set items"
    and "code \<noteq> base"
    and "map_of rts code = Some r"
  shows "reported_rate (exchangerate_collect base ts st rts items res) (base @ ''_'' @ code) = Some r
       \<and> reported_rate (exchangerate_collect base ts st rts items res) (code @ ''_'' @ base)
           = Some (if r \<noteq> 0 then 1 / r else 0)"
  using assms(2,3)
proof (induction items arbitrary: res)
  case Nil
  then show ?case by simp
next
  case (Cons c' items)
  from Cons.prems have nu: "\<forall>c \<in> set items. CHR ''_'' \<notin> set c" by simp
  show ?case
  proof (cases "code \<in> set items")
    case True
    from Cons.IH [OF nu True] show ?thesis
      unfolding exchangerate_collect_Cons
      by (cases "map_of rts c'") simp_all
  next
    case False
    with Cons.prems(2) have eq: "c' = code" by simp
    from Cons.prems(1) eq have cnu: "CHR ''_'' \<notin> set code" by simp
    have f1: "base @ ''_'' @ code \<notin> (\<lambda>c. c @ ''_'' @ base) ` set items"
    proof
      assume "base @ ''_'' @ code \<in> (\<lambda>c. c @ ''_'' @ base) ` set items"
      then obtain c where c: "c \<in> set items" and e: "base @ ''_'' @ code = c @ ''_'' @ base"
        by auto
      from c nu have "CHR ''_'' \<notin> set c" by blast
      then have "base = c \<and> code = base" by (rule key_inj [OF assms(1) _ e])
      with assms(4) show False by blast
    qed
    have f2: "base @ ''_'' @ code \<notin> (\<lambda>c. base @ ''_'' @ c) ` set items"
      using False by auto
    have f3: "code @ ''_'' @ base \<notin> (\<lambda>c. c @ ''_'' @ base) ` set items"
      using False by auto
    have f4: "code @ ''_'' @ base \<notin> (\<lambda>c. base @ ''_'' @ c) ` set items"
    proof
      assume "code @ ''_'' @ base \<in> (\<lambda>c. base @ ''_'' @ c) ` set items"
      then obtain c where e: "code @ ''_'' @ base = base @ ''_'' @ c" by auto
      have "code = base \<and> base = c" by (rule key_inj [OF cnu assms(1) e])
      with assms(4) show False by blast
    qed
    have ne: "base @ ''_'' @ code \<noteq> code @ ''_'' @ base"
    proof
      assume e: "base @ ''_'' @ code = code @ ''_'' @ base"
      have "base = code \<and> code = base" by (rule key_inj [OF assms(1) cnu e])
      with assms(4) show False by blast
    qed
    let ?bag = "Some [(''status_code'', JInt st)]"
    let ?R = "AList.update (code @ ''_'' @ base)
               \<lparr>rate = Some (if r \<noteq> 0 then 1 / r else 0), updated_at = Some ts,
                source = Some ''ExchangeRate-API'', meta_bag = ?bag\<rparr>
               (AList.update (base @ ''_'' @ code)
                  \<lparr>rate = Some r, updated_at = Some ts, source = Some ''ExchangeRate-API'',
                   meta_bag = ?bag\<rparr>
                  res)"
    have step: "exchangerate_collect base ts st rts (code # items) res
                  = exchangerate_collect base ts st rts items ?R"
      unfolding exchangerate_collect_Cons assms(5) using assms(4) by simp
    have g1: "reported_rate (exchangerate_collect base ts st rts items ?R) (base @ ''_'' @ code)
                = reported_rate (Inr ?R) (base @ ''_'' @ code)"
      by (rule exchangerate_collect_frame [OF f1 f2])
    have g2: "reported_rate (exchangerate_collect base ts st rts items ?R) (code @ ''_'' @ base)
                = reported_rate (Inr ?R) (code @ ''_'' @ base)"
      by (rule exchangerate_collect_frame [OF f3 f4])
    have v1: "reported_rate (Inr ?R) (base @ ''_'' @ code) = Some r"
      using ne by (simp add: reported_rate_Inr_update)
    have v2: "reported_rate (Inr ?R) (code @ ''_'' @ base) = Some (if r \<noteq> 0 then 1 / r else 0)"
      by (simp add: reported_rate_Inr_update)
    show ?thesis
      unfolding eq step g1 g2 v1 v2 by simp
  qed
qed

text \<open>
  Claim C6. For a configuration whose codes hold no underscore, whose crypto codes are
  distinct (they are the keys of a dict) and differ from the base currency:
  \<^item> the expression for the inverse rate returns \<open>1 / rate\<close> for a rate other than 0
    and 0 for the rate 0, and neither client ever ends with a division fault;
  \<^item> for every crypto code whose price the body holds, the batch of the crypto client
    holds the direct key \<open>CODE_BASE\<close> with that price and the inverse key \<open>BASE_CODE\<close>
    with the inverse rate;
  \<^item> for every fiat code other than the base whose rate the body holds, the batch of
    the fiat client holds the direct key \<open>BASE_CODE\<close> with that rate and the inverse key
    \<open>CODE_BASE\<close> with the inverse rate.
\<close>

theorem providers_report_both_directions:
  assumes "CHR ''_'' \<notin> set (BASE_FIAT_CURRENCY cfg)"
    and "\<forall>c \<in> fst ` set (CRYPTO_ID_MAP cfg) \<union> set (FIAT_CURRENCIES cfg). CHR ''_'' \<notin> set c"
    and "distinct (map fst (CRYPTO_ID_MAP cfg))"
    and "BASE_FIAT_CURRENCY cfg \<notin> fst ` set (CRYPTO_ID_MAP cfg)"
  shows "inverse_rate x = Inr (if x \<noteq> 0 then 1 / x else 0)
       \<and> coingecko_fetch_rates cfg ts http \<noteq> Inl ZeroDivisionError
       \<and> exchangerate_fetch_rates cfg ts2 http2 \<noteq> Inl ZeroDivisionError
       \<and> ((code, raw_id) \<in> set (CRYPTO_ID_MAP cfg)
            \<and> coingecko_price data raw_id (BASE_FIAT_CURRENCY cfg) = Some r \<longrightarrow>
          reported_rate (coingecko_fetch_rates cfg ts (Response status data))
            (pair_key_of code (BASE_FIAT_CURRENCY cfg)) = Some r
          \<and> reported_rate (coingecko_fetch_rates cfg ts (Response status data))
              (pair_key_of (BASE_FIAT_CURRENCY cfg) code) = Some (if r \<noteq> 0 then 1 / r else 0))
       \<and> (fcode \<in> set (FIAT_CURRENCIES cfg) \<and> fcode \<noteq> BASE_FIAT_CURRENCY cfg
            \<and> rates_of_body body = Some rts \<and> map_of rts fcode = Some fr \<longrightarrow>
          reported_rate (exchangerate_fetch_rates cfg ts2 (Response status2 body))
            (pair_key_of (BASE_FIAT_CURRENCY cfg) fcode) = Some fr
          \<and> reported_rate (exchangerate_fetch_rates cfg ts2 (Response status2 body))
              (pair_key_of fcode (BASE_FIAT_CURRENCY cfg))
              = Some (if fr \<noteq> 0 then 1 / fr else 0))"
proof (intro conjI impI)
  show "inverse_rate x = Inr (if x \<noteq> 0 then 1 / x else 0)" by (rule inverse_rate_total)
next
  show "coingecko_fetch_rates cfg ts http \<noteq> Inl ZeroDivisionError"
  proof (cases http)
    case (RequestFailed reason)
    then show ?thesis by (simp add: coingecko_fetch_rates_def)
  next
    case (Response st d)
    then show ?thesis
      using coingecko_collect_total [of "BASE_FIAT_CURRENCY cfg" ts st d "CRYPTO_ID_MAP cfg" "[]"]
      by (auto simp: coingecko_fetch_rates_def)
  qed
next
  show "exchangerate_fetch_rates cfg ts2 http2 \<noteq> Inl ZeroDivisionError"
  proof (cases http2)
    case (RequestFailed reason)
    then show ?thesis by (simp add: exchangerate_fetch_rates_def)
  next
    case (Response st d)
    show ?thesis
    proof (cases "rates_of_body d")
      case None
      with Response show ?thesis by (simp add: exchangerate_fetch_rates_def)
    next
      case (Some rs)
      with Response show ?thesis
        using exchangerate_collect_total
          [of "BASE_FIAT_CURRENCY cfg" ts2 st rs "FIAT_CURRENCIES cfg" "[]"]
        by (auto simp: exchangerate_fetch_rates_def)
    qed
  qed
next
  assume a: "(code, raw_id) \<in> set (CRYPTO_ID_MAP cfg)
            \<and> coingecko_price data raw_id (BASE_FIAT_CURRENCY cfg) = Some r"
  from assms(2) have nu: "\<forall>c \<in> fst ` set (CRYPTO_ID_MAP cfg). CHR ''_'' \<notin> set c" by blast
  from a have m: "(code, raw_id) \<in> set (CRYPTO_ID_MAP cfg)"
    and p: "coingecko_price data raw_id (BASE_FIAT_CURRENCY cfg) = Some r" by blast+
  note c = coingecko_collect_reported [OF assms(1) nu assms(3) assms(4) m p, of ts status "[]"]
  from c show "reported_rate (coingecko_fetch_rates cfg ts (Response status data))
            (pair_key_of code (BASE_FIAT_CURRENCY cfg)) = Some r"
    by (simp add: coingecko_fetch_rates_def pair_key_of_def)
  from c show "reported_rate (coingecko_fetch_rates cfg ts (Response status data))
              (pair_key_of (BASE_FIAT_CURRENCY cfg) code) = Some (if r \<noteq> 0 then 1 / r else 0)"
    by (simp add: coingecko_fetch_rates_def pair_key_of_def)
next
  assume a: "fcode \<in> set (FIAT_CURRENCIES cfg) \<and> fcode \<noteq> BASE_FIAT_CURRENCY cfg
            \<and> rates_of_body body = Some rts \<and> map_of rts fcode = Some fr"
  from assms(2) have nu: "\<forall>c \<in> set (FIAT_CURRENCIES cfg). CHR ''_'' \<notin> set c" by blast
  from a have m: "fcode \<in> set (FIAT_CURRENCIES cfg)" and nb: "fcode \<noteq> BASE_FIAT_CURRENCY cfg"
    and rb: "rates_of_body body = Some rts" and p: "map_of rts fcode = Some fr" by blast+
  from p have ne: "rts \<noteq> []" by auto
  note c = exchangerate_collect_reported [OF assms(1) nu m nb p, of ts2 status2 "[]"]
  from c rb ne show "reported_rate (exchangerate_fetch_rates cfg ts2 (Response status2 body))
            (pair_key_of (BASE_FIAT_CURRENCY cfg) fcode) = Some fr"
    by (simp add: exchangerate_fetch_rates_def pair_key_of_def)
  from c rb ne show "reported_rate (exchangerate_fetch_rates cfg ts2 (Response status2 body))
              (pair_key_of fcode (BASE_FIAT_CURRENCY cfg))
              = Some (if fr \<noteq> 0 then 1 / fr else 0)"
    by (simp add: exchangerate_fetch_rates_def pair_key_of_def)
qed

lemma py_lower_USD: "py_lower ''USD'' = ''usd''"
  by (simp add: py_lower_def char_of_def bit_0)

theorem providers_report_both_directions_witness:
  "reported_rate (coingecko_fetch_rates ParserConfig ''2024-01-02T00:00:00Z''
       (Response 200 [(''bitcoin'', [(''usd'', 50000)])])) ''BTC_USD'' = Some 50000
   \<and> reported_rate (coingecko_fetch_rates ParserConfig ''2024-01-02T00:00:00Z''
       (Response 200 [(''bitcoin'', [(''usd'', 50000)])])) ''USD_BTC'' = Some (1 / 50000)
   \<and> reported_rate (exchangerate_fetch_rates ParserConfig ''2024-01-02T00:00:00Z''
       (Response 200 \<lparr>rates = Some [(''EUR'', 0)], conversion_rates = None\<rparr>)) ''USD_EUR''
       = Some 0
   \<and> reported_rate (exchangerate_fetch_rates ParserConfig ''2024-01-02T00:00:00Z''
       (Response 200 \<lparr>rates = Some [(''EUR'', 0)], conversion_rates = None\<rparr>)) ''EUR_USD''
       = Some 0"
proof -
  have h1: "CHR ''_'' \<notin> set (BASE_FIAT_CURRENCY ParserConfig)"
    by (simp add: ParserConfig_def)
  have h2: "\<forall>c \<in> fst ` set (CRYPTO_ID_MAP ParserConfig) \<union> set (FIAT_CURRENCIES ParserConfig).
              CHR ''_'' \<notin> set c"
    by (simp add: ParserConfig_def)
  have h3: "distinct (map fst (CRYPTO_ID_MAP ParserConfig))"
    by (simp add: ParserConfig_def)
  have h4: "BASE_FIAT_CURRENCY ParserConfig \<notin> fst ` set (CRYPTO_ID_MAP ParserConfig)"
    by (simp add: ParserConfig_def)
  have c: "(''BTC'', ''bitcoin'') \<in> set (CRYPTO_ID_MAP ParserConfig)
           \<and> coingecko_price [(''bitcoin'', [(''usd'', 50000)])] ''bitcoin''
                (BASE_FIAT_CURRENCY ParserConfig) = Some 50000"
    by (simp add: ParserConfig_def coingecko_price_def py_lower_USD)
  have f: "''EUR'' \<in> set (FIAT_CURRENCIES ParserConfig)
           \<and> ''EUR'' \<noteq> BASE_FIAT_CURRENCY ParserConfig
           \<and> rates_of_body \<lparr>rates = Some [(''EUR'', 0)], conversion_rates = None\<rparr>
               = Some [(''EUR'', 0)]
           \<and> map_of [(''EUR'', 0::real)] ''EUR'' = Some 0"
    by (simp add: ParserConfig_def rates_of_body_def)
  have k: "pair_key_of ''BTC'' (BASE_FIAT_CURRENCY ParserConfig) = ''BTC_USD''"
    "pair_key_of (BASE_FIAT_CURRENCY ParserConfig) ''BTC'' = ''USD_BTC''"
    "pair_key_of ''EUR'' (BASE_FIAT_CURRENCY ParserConfig) = ''EUR_USD''"
    "pair_key_of (BASE_FIAT_CURRENCY ParserConfig) ''EUR'' = ''USD_EUR''"
    by (simp_all add: pair_key_of_def ParserConfig_def)
  from providers_report_both_directions [OF h1 h2 h3 h4,
      of 0 "''2024-01-02T00:00:00Z''" "RequestFailed []" "''2024-01-02T00:00:00Z''"
         "RequestFailed []" "''BTC''" "''bitcoin''" "[(''bitcoin'', [(''usd'', 50000)])]" 50000
         200 "''EUR''" "\<lparr>rates = Some [(''EUR'', 0)], conversion_rates = None\<rparr>"
         "[(''EUR'', 0)]" 0 200, unfolded k] c f
  show ?thesis by simp
qed

subsection \<open>Freshness checker\<close>



end
